theory Spec2Isabelle
  imports Main "HOL-Library.AList"
begin

text \<open>
  The user-registration pipeline of the backend: the controller \<open>registerUser\<close>, the
  upload helper \<open>uploadOnCloudinary\<close>, the user schema with its \<open>pre('save')\<close> hook
  and \<open>isPasswordCorrect\<close>, and the response envelope \<open>ApiResponse\<close>. The remote
  media service, the hashing library and the clock are parameters; the document store
  is a list of documents with the schema's setters, required validators and unique
  indexes. The version key and the other bookkeeping of the ODM are left out.
\<close>

section \<open>JavaScript values used by the backend\<close>

text \<open>
  A JavaScript string is modelled as the list of its code units, restricted to the
  range 0..255 that \<^typ>\<open>char\<close> offers. \<open>String.prototype.trim\<close> strips white space
  and line terminators at both ends; in this range they are TAB, LF, VT, FF, CR, SP and
  NBSP. \<open>toLowerCase\<close> maps A..Z and the upper-case letters of the Latin-1 block.
  A value that may be \<open>undefined\<close> is an \<^typ>\<open>'a option\<close>, \<open>None\<close> being \<open>undefined\<close>.
\<close>

definition isWhiteSpace :: "char \<Rightarrow> bool" where
  "isWhiteSpace c = (of_char c \<in> {9, 10, 11, 12, 13, 32, 160 :: nat})"

definition trim :: "string \<Rightarrow> string" where
  "trim s = rev (dropWhile isWhiteSpace (rev (dropWhile isWhiteSpace s)))"

definition lowerChar :: "char \<Rightarrow> char" where
  "lowerChar c =
     (let n = of_char c :: nat
      in if (65 \<le> n \<and> n \<le> 90) \<or> (192 \<le> n \<and> n \<le> 222 \<and> n \<noteq> 215)
         then char_of (n + 32) else c)"

definition toLowerCase :: "string \<Rightarrow> string" where
  "toLowerCase s = map lowerChar s"

text \<open>
  JSON values: what a request body carries, what a stored document holds and what
  \<open>res.json\<close> serialises.
  An object is an association list from property names to values; a property that is
  \<open>undefined\<close> is absent from the list.
\<close>

datatype jsval =
    JNull
  | JBool bool
  | JString string
  | JNumber int
  | JArray "jsval list"
  | JObject "(string \<times> jsval) list"

type_synonym doc = "(string \<times> jsval) list"

definition keys :: "doc \<Rightarrow> string set" where
  "keys d = fst ` set d"

text \<open>What the handler can throw. \<open>ApiError statusCode message\<close> is the class
  \<open>apiError\<close> of \<open>utils/apiError\<close> (its \<open>errors\<close> default to the empty list, its
  \<open>success\<close> is false); the other constructors are errors raised by the runtime, the
  file system, the ODM and the database.\<close>

datatype thrown =
    ApiError int string
  | TypeError string
  | ReferenceError string
  | ENOENT string
  | ValidationError string
  | DuplicateKey string

section \<open>Media upload: \<open>uploadOnCloudinary\<close>\<close>

text \<open>
  The remote service is an external collaborator: \<open>uploader_upload p\<close> is the outcome of
  \<open>cloudinary.uploader.upload(p, {resource_type: "auto"})\<close>, \<open>None\<close> when the call
  rejects. The password hashing library and the clock are the other externals.
\<close>

record cloud_response =
  url :: string
  public_id :: string

record externals =
  uploader_upload :: "string \<Rightarrow> cloud_response option"
  bcrypt_hash :: "string \<Rightarrow> nat \<Rightarrow> string"
  bcrypt_compare :: "string \<Rightarrow> string \<Rightarrow> bool"
  now :: int

text \<open>The local file system is the set of paths at which a file exists.\<close>

type_synonym disk = "string set"

definition existsSync :: "string \<Rightarrow> disk \<Rightarrow> bool" where
  "existsSync p fs = (p \<in> fs)"

text \<open>\<open>fs.unlinkSync\<close> throws when the path is \<open>undefined\<close> or names no file.\<close>

definition unlinkSync :: "string option \<Rightarrow> disk \<Rightarrow> thrown + disk" where
  "unlinkSync p fs =
     (case p of
        None \<Rightarrow> Inl (TypeError ''The path argument must be of type string'')
      | Some q \<Rightarrow> if q \<in> fs then Inr (fs - {q}) else Inl (ENOENT q))"

text \<open>A path is falsy when it is \<open>undefined\<close> or the empty string.\<close>

definition falsy :: "string option \<Rightarrow> bool" where
  "falsy p = (p = None \<or> p = Some [])"

text \<open>
  The \<open>catch\<close> block of the CommonJS module: remove the local file when the path is
  truthy and the file exists, then return \<open>null\<close>.
\<close>

definition upload_catch :: "string option \<Rightarrow> disk \<Rightarrow> (thrown + cloud_response option) \<times> disk" where
  "upload_catch localFilePath fs =
     (case localFilePath of
        None \<Rightarrow> (Inr None, fs)
      | Some p \<Rightarrow>
          if p \<noteq> [] \<and> existsSync p fs
          then (case unlinkSync (Some p) fs of
                  Inl e \<Rightarrow> (Inl e, fs)
                | Inr fs' \<Rightarrow> (Inr None, fs'))
          else (Inr None, fs))"

text \<open>
  \<open>uploadOnCloudinary\<close> of the CommonJS module (the one \<open>module.exports\<close> hands to
  the controller). The result is the value the promise resolves to (\<open>None\<close> is \<open>null\<close>),
  or what it rejects with, and the file system afterwards.
\<close>

definition uploadOnCloudinary ::
  "externals \<Rightarrow> string option \<Rightarrow> disk \<Rightarrow> (thrown + cloud_response option) \<times> disk" where
  "uploadOnCloudinary ext localFilePath fs =
     (case localFilePath of
        None \<Rightarrow> (Inr None, fs)
      | Some p \<Rightarrow>
          if p = [] then (Inr None, fs)
          else
            (case uploader_upload ext p of
               None \<Rightarrow> upload_catch localFilePath fs
             | Some response \<Rightarrow>
                 (case unlinkSync localFilePath fs of
                    Inl e \<Rightarrow> upload_catch localFilePath fs
                  | Inr fs' \<Rightarrow> (Inr (Some response), fs'))))"

text \<open>
  The earlier draft of the same module (it mixes \<open>require\<close> with \<open>export\<close>, so no
  module system loads it). Its \<open>try\<close> block starts by reading the undeclared identifier
  \<open>localFilepath\<close>, which throws a \<open>ReferenceError\<close> on every call, so the function is
  its \<open>catch\<close> block: unlink without a guard, then return \<open>null\<close>.
\<close>

definition uploadOnCloudinary_draft ::
  "string option \<Rightarrow> disk \<Rightarrow> (thrown + cloud_response option) \<times> disk" where
  "uploadOnCloudinary_draft localFilePath fs =
     (case unlinkSync localFilePath fs of
        Inl e \<Rightarrow> (Inl e, fs)
      | Inr fs' \<Rightarrow> (Inr None, fs'))"

section \<open>The user model\<close>

text \<open>
  The options of a string path of \<open>userSchema\<close>. The paths are listed in the order of
  the schema; \<open>watchHistory\<close> is an array path and defaults to the empty array;
  \<open>{timestamps: true}\<close> adds \<open>createdAt\<close> and \<open>updatedAt\<close>.
\<close>

record schemaType =
  required :: bool
  unique :: bool
  trims :: bool
  lowercase :: bool

definition userSchema :: "(string \<times> schemaType) list" where
  "userSchema =
     [(''username'', \<lparr>required = True, unique = True, trims = True, lowercase = True\<rparr>),
      (''fullName'', \<lparr>required = True, unique = False, trims = True, lowercase = False\<rparr>),
      (''password'', \<lparr>required = True, unique = False, trims = False, lowercase = False\<rparr>),
      (''email'', \<lparr>required = True, unique = True, trims = True, lowercase = True\<rparr>),
      (''avatar'', \<lparr>required = True, unique = False, trims = False, lowercase = False\<rparr>),
      (''coverImage'', \<lparr>required = False, unique = False, trims = False, lowercase = False\<rparr>),
      (''refreshTokens'', \<lparr>required = False, unique = False, trims = False, lowercase = False\<rparr>)]"

text \<open>An object literal whose property values are strings or \<open>undefined\<close>.\<close>

type_synonym props = "(string \<times> string option) list"

definition getProp :: "props \<Rightarrow> string \<Rightarrow> string option" where
  "getProp obj k = (case map_of obj k of None \<Rightarrow> None | Some v \<Rightarrow> v)"

definition applySetters :: "schemaType \<Rightarrow> string \<Rightarrow> string" where
  "applySetters st s =
     (let s1 = (if trims st then trim s else s)
      in if lowercase st then toLowerCase s1 else s1)"

text \<open>\<open>new User(obj)\<close>: every schema path that \<open>obj\<close> defines is set through the
  setters of the path; properties outside the schema are dropped.\<close>

definition castDoc :: "props \<Rightarrow> doc" where
  "castDoc obj =
     concat (map (\<lambda>(k, st). case getProp obj k of
                                None \<Rightarrow> []
                              | Some s \<Rightarrow> [(k, JString (applySetters st s))]) userSchema)"

text \<open>The required validator of a string path: present and not the empty string.\<close>

definition checkRequired :: "doc \<Rightarrow> string \<Rightarrow> bool" where
  "checkRequired d k = (case map_of d k of Some (JString s) \<Rightarrow> s \<noteq> [] | _ \<Rightarrow> False)"

definition validateSync :: "doc \<Rightarrow> thrown + unit" where
  "validateSync d =
     (case filter (\<lambda>(k, st). required st \<and> \<not> checkRequired d k) userSchema of
        [] \<Rightarrow> Inr ()
      | (k, st) # rest \<Rightarrow> Inl (ValidationError k))"

text \<open>
  The \<open>pre('save')\<close> hook. \<open>modified\<close> lists the paths for which \<open>isModified\<close> is true.
  \<open>bcrypt.hash\<close> rejects when the data is not a string.
\<close>

definition pre_save :: "externals \<Rightarrow> string list \<Rightarrow> doc \<Rightarrow> thrown + doc" where
  "pre_save ext modified this =
     (if ''password'' \<notin> set modified then Inr this
      else
        (case map_of this ''password'' of
           Some (JString p) \<Rightarrow>
             Inr (AList.update ''password'' (JString (bcrypt_hash ext p 10)) this)
         | _ \<Rightarrow> Inl (TypeError ''data and salt arguments required'')))"

definition isPasswordCorrect :: "externals \<Rightarrow> doc \<Rightarrow> string \<Rightarrow> thrown + bool" where
  "isPasswordCorrect ext this candidate =
     (case map_of this ''password'' of
        Some (JString h) \<Rightarrow> Inr (bcrypt_compare ext candidate h)
      | _ \<Rightarrow> Inl (TypeError ''data and hash arguments required''))"

section \<open>The user repository\<close>

text \<open>
  The collection is the list of stored documents, oldest first. Identifiers are
  integers; a new document gets one that no stored document has.
\<close>

definition idOf :: "doc \<Rightarrow> int option" where
  "idOf d = (case map_of d ''_id'' of Some (JNumber i) \<Rightarrow> Some i | _ \<Rightarrow> None)"

definition freshId :: "doc list \<Rightarrow> int" where
  "freshId coll = 1 + fold max (map (\<lambda>d. case idOf d of None \<Rightarrow> 0 | Some i \<Rightarrow> i) coll) 0"

text \<open>The unique indexes: the unique paths on which a stored document has the value
  of the new one.\<close>

definition duplicateKeys :: "doc \<Rightarrow> doc list \<Rightarrow> string list" where
  "duplicateKeys d coll =
     map fst (filter (\<lambda>(k, st). unique st \<and> list_ex (\<lambda>e. map_of e k = map_of d k) coll) userSchema)"

definition insertOne :: "doc \<Rightarrow> doc list \<Rightarrow> thrown + doc list" where
  "insertOne d coll =
     (case duplicateKeys d coll of
        [] \<Rightarrow> Inr (coll @ [d])
      | k # rest \<Rightarrow> Inl (DuplicateKey k))"

text \<open>
  \<open>User.create(obj)\<close>: build the document, validate it, run the \<open>pre('save')\<close> hook (on
  a new document every path that was set counts as modified), stamp it and insert it.
\<close>

definition User_create :: "externals \<Rightarrow> props \<Rightarrow> doc list \<Rightarrow> thrown + (doc \<times> doc list)" where
  "User_create ext obj coll =
     (let this = (''_id'', JNumber (freshId coll)) # castDoc obj @ [(''watchHistory'', JArray [])]
      in case validateSync this of
           Inl e \<Rightarrow> Inl e
         | Inr u \<Rightarrow>
             (case pre_save ext (map fst (castDoc obj)) this of
                Inl e \<Rightarrow> Inl e
              | Inr hashed \<Rightarrow>
                  (let saved = hashed @ [(''createdAt'', JNumber (now ext)),
                                         (''updatedAt'', JNumber (now ext))]
                   in case insertOne saved coll of
                        Inl e \<Rightarrow> Inl e
                      | Inr coll' \<Rightarrow> Inr (saved, coll'))))"

text \<open>
  \<open>User.findOne({$or: [...]})\<close>: the first stored document that agrees with one of the
  clauses. The ODM casts the filter through the schema before it queries, so a string
  given for a path goes through the setters of that path (for \<open>username\<close> and
  \<open>email\<close>: trimmed and lowercased). A clause without a value (\<open>undefined\<close> or
  \<open>null\<close>) is matched by a document without the path only.
\<close>

definition castFilter :: "string \<Rightarrow> string \<Rightarrow> string" where
  "castFilter k s = (case map_of userSchema k of None \<Rightarrow> s | Some st \<Rightarrow> applySetters st s)"

definition findOne_or :: "props \<Rightarrow> doc list \<Rightarrow> doc option" where
  "findOne_or clauses coll =
     find (\<lambda>d. list_ex (\<lambda>(k, v). map_of d k = map_option (\<lambda>s. JString (castFilter k s)) v)
                  clauses) coll"

definition findById :: "int option \<Rightarrow> doc list \<Rightarrow> doc option" where
  "findById i coll =
     (case i of None \<Rightarrow> None | Some j \<Rightarrow> find (\<lambda>d. idOf d = Some j) coll)"

text \<open>
  \<open>Query.select(spec)\<close> with a string: the string is split at white space, empty
  pieces are skipped, a piece \<open>-name\<close> excludes the path \<open>name\<close> and any other piece
  includes a path. With no included path the projection drops the excluded ones; with
  included paths it keeps those (and \<open>_id\<close>).
\<close>

fun splitWs :: "string \<Rightarrow> string list" where
  "splitWs [] = [[]]"
| "splitWs (c # cs) =
     (if isWhiteSpace c then [] # splitWs cs
      else (case splitWs cs of [] \<Rightarrow> [[c]] | w # ws \<Rightarrow> (c # w) # ws))"

definition excluded :: "string \<Rightarrow> string list" where
  "excluded spec = map tl (filter (\<lambda>t. t \<noteq> [] \<and> hd t = CHR ''-'') (splitWs spec))"

definition included :: "string \<Rightarrow> string list" where
  "included spec = filter (\<lambda>t. t \<noteq> [] \<and> hd t \<noteq> CHR ''-'') (splitWs spec)"

definition select :: "string \<Rightarrow> doc \<Rightarrow> doc" where
  "select spec d =
     (if included spec = [] then filter (\<lambda>(k, v). k \<notin> set (excluded spec)) d
      else filter (\<lambda>(k, v). (k = ''_id'' \<or> k \<in> set (included spec)) \<and> k \<notin> set (excluded spec)) d)"

section \<open>The response envelope\<close>

text \<open>The class \<open>ApiResponse\<close> as \<open>notes.md\<close> gives it:
  \<open>constructor(statusCode, message, data = "Success")\<close>, with
  \<open>success = statusCode >= 200 && statusCode < 300\<close>. The handler passes all three
  arguments, so the default of \<open>data\<close> is not modelled.\<close>

record ApiResponse =
  statusCode :: int
  message :: jsval
  data :: jsval
  success :: bool

definition new_ApiResponse :: "int \<Rightarrow> jsval \<Rightarrow> jsval \<Rightarrow> ApiResponse" where
  "new_ApiResponse sc m d =
     \<lparr>statusCode = sc, message = m, data = d, success = (sc \<ge> 200 \<and> sc < 300)\<rparr>"

section \<open>The registration controller\<close>

text \<open>
  The request as the body parsers and the upload middleware leave it: \<open>req.body\<close> is
  \<open>undefined\<close> or an object whose properties are JSON values (a form gives strings,
  a JSON body gives anything); \<open>req.files\<close> is \<open>undefined\<close> or maps a field name to
  the list of its uploaded files.
\<close>

record uploadedFile =
  path :: string

record request =
  body :: "(string \<times> jsval) list option"
  files :: "(string \<times> uploadedFile list) list option"

text \<open>What the handler reads and changes: the local files and the collection.\<close>

record world =
  localFiles :: disk
  users :: "doc list"

text \<open>\<open>req.files?.[name]?.[0]?.path\<close>\<close>

definition localPath :: "request \<Rightarrow> string \<Rightarrow> string option" where
  "localPath req name =
     (case files req of
        None \<Rightarrow> None
      | Some fl \<Rightarrow>
          (case map_of fl name of
             None \<Rightarrow> None
           | Some [] \<Rightarrow> None
           | Some (f # rest) \<Rightarrow> Some (path f)))"

text \<open>The four required text fields, in the order the handler checks them, and the
  value the destructuring of \<open>req.body\<close> binds to one of them (\<open>None\<close> is
  \<open>undefined\<close>).\<close>

definition fieldNames :: "string list" where
  "fieldNames = [''fullName'', ''email'', ''password'', ''username'']"

definition fieldOf :: "request \<Rightarrow> string \<Rightarrow> jsval option" where
  "fieldOf req k = (case body req of None \<Rightarrow> None | Some b \<Rightarrow> map_of b k)"

text \<open>
  \<open>fields.some((field) => field?.trim() === "")\<close>: the fields are visited in order
  until one gives true. \<open>field?.trim()\<close> is \<open>undefined\<close> for \<open>undefined\<close> and \<open>null\<close>,
  the trimmed string for a string, and a \<open>TypeError\<close> for any other value (it has no
  \<open>trim\<close> method).
\<close>

fun someBlank :: "jsval option list \<Rightarrow> thrown + bool" where
  "someBlank [] = Inr False"
| "someBlank (None # fs) = someBlank fs"
| "someBlank (Some JNull # fs) = someBlank fs"
| "someBlank (Some (JString s) # fs) = (if trim s = [] then Inr True else someBlank fs)"
| "someBlank (Some v # fs) = Inl (TypeError ''field?.trim is not a function'')"

text \<open>Lines 35 to 56 of the handler: the destructuring of \<open>req.body\<close>, which throws
  when the body is \<open>undefined\<close>, then the test on the four fields.\<close>

definition someFieldBlank :: "request \<Rightarrow> thrown + bool" where
  "someFieldBlank req =
     (case body req of
        None \<Rightarrow> Inl (TypeError ''Cannot destructure property username of req.body'')
      | Some b \<Rightarrow> someBlank (map (fieldOf req) fieldNames))"

text \<open>
  Past that test every field is \<open>undefined\<close>, \<open>null\<close> or a string
  (\<open>someBlank_False_iff\<close> below). For the query and for \<open>User.create\<close>, \<open>null\<close>
  and \<open>undefined\<close> are both the absence of a value; \<open>strOf\<close> is the string, if any.
\<close>

definition strOf :: "jsval option \<Rightarrow> string option" where
  "strOf v = (case v of Some (JString s) \<Rightarrow> Some s | _ \<Rightarrow> None)"

text \<open>
  The argument of \<open>User.create\<close>. Evaluating \<open>username.toLowerCase()\<close> throws when
  \<open>username\<close> is not a string. \<open>coverImages?.url || ""\<close> is the empty string when the
  upload result is \<open>null\<close> or its \<open>url\<close> is empty.
\<close>

definition userObject :: "request \<Rightarrow> cloud_response \<Rightarrow> cloud_response option \<Rightarrow> thrown + props" where
  "userObject req avatar coverImages =
     (case strOf (fieldOf req ''username'') of
        None \<Rightarrow> Inl (TypeError ''Cannot read properties of undefined (reading toLowerCase)'')
      | Some username \<Rightarrow>
          Inr [(''fullName'', strOf (fieldOf req ''fullName'')),
               (''email'', strOf (fieldOf req ''email'')),
               (''username'', Some (toLowerCase username)),
               (''password'', strOf (fieldOf req ''password'')),
               (''avatar'', Some (url avatar)),
               (''coverImage'',
                  Some (case coverImages of
                          None \<Rightarrow> []
                        | Some c \<Rightarrow> if url c = [] then [] else url c))])"

text \<open>Steps 6 to 8 of the handler: create, fetch again without the sensitive
  fields, respond.\<close>

definition createAndRespond ::
  "externals \<Rightarrow> request \<Rightarrow> cloud_response \<Rightarrow> cloud_response option \<Rightarrow> world
     \<Rightarrow> (thrown + int \<times> ApiResponse) \<times> world" where
  "createAndRespond ext req avatar coverImages w =
     (case userObject req avatar coverImages of
        Inl e \<Rightarrow> (Inl e, w)
      | Inr obj \<Rightarrow>
          (case User_create ext obj (users w) of
             Inl e \<Rightarrow> (Inl e, w)
           | Inr (newUser, coll) \<Rightarrow>
               (case map_option (select ''-password -refreshToken '') (findById (idOf newUser) coll) of
                  None \<Rightarrow> (Inl (ApiError 500 ''User creation failed''), w\<lparr>users := coll\<rparr>)
                | Some createdUser \<Rightarrow>
                    (Inr (201, new_ApiResponse 201 (JObject createdUser)
                                 (JString ''User created successfully'')),
                     w\<lparr>users := coll\<rparr>))))"

text \<open>The values the handler names: the stored user the duplication check finds and
  the two local paths taken from the upload payload.\<close>

definition existedUser :: "request \<Rightarrow> world \<Rightarrow> doc option" where
  "existedUser req w =
     findOne_or [(''email'', strOf (fieldOf req ''email'')),
                 (''username'', strOf (fieldOf req ''username''))] (users w)"

definition avatarLocalPath :: "request \<Rightarrow> string option" where
  "avatarLocalPath req = localPath req ''avatar''"

definition coverImagesLocalPath :: "request \<Rightarrow> string option" where
  "coverImagesLocalPath req = localPath req ''coverImages''"

text \<open>The two uploads in the order the handler awaits them: the avatar on the
  files as the request found them, the cover image on what the first upload left.\<close>

definition avatarUpload ::
  "externals \<Rightarrow> request \<Rightarrow> world \<Rightarrow> (thrown + cloud_response option) \<times> disk" where
  "avatarUpload ext req w = uploadOnCloudinary ext (avatarLocalPath req) (localFiles w)"

definition coverImagesUpload ::
  "externals \<Rightarrow> request \<Rightarrow> world \<Rightarrow> (thrown + cloud_response option) \<times> disk" where
  "coverImagesUpload ext req w =
     uploadOnCloudinary ext (coverImagesLocalPath req) (snd (avatarUpload ext req w))"

text \<open>The handler from the duplication check on (lines 58 to 115).\<close>

definition afterValidation ::
  "externals \<Rightarrow> request \<Rightarrow> world \<Rightarrow> (thrown + int \<times> ApiResponse) \<times> world" where
  "afterValidation ext req w =
     (case existedUser req w of
        Some found \<Rightarrow> (Inl (ApiError 409 ''User already exists''), w)
      | None \<Rightarrow>
          if falsy (avatarLocalPath req)
          then (Inl (ApiError 400 ''Avatar is required''), w)
          else
            (case avatarUpload ext req w of
               (Inl e, fs1) \<Rightarrow> (Inl e, w\<lparr>localFiles := fs1\<rparr>)
             | (Inr avatar, fs1) \<Rightarrow>
                 (case coverImagesUpload ext req w of
                    (Inl e, fs2) \<Rightarrow> (Inl e, w\<lparr>localFiles := fs2\<rparr>)
                  | (Inr coverImages, fs2) \<Rightarrow>
                      (case avatar of
                         None \<Rightarrow> (Inl (ApiError 400 ''Avatar upload failed''),
                                  w\<lparr>localFiles := fs2\<rparr>)
                       | Some a \<Rightarrow>
                           createAndRespond ext req a coverImages (w\<lparr>localFiles := fs2\<rparr>)))))"

text \<open>The handler. The result is the error it throws (\<open>asyncHandler\<close> passes it on
  to the error middleware) or the status and body it sends, with the world afterwards.\<close>

definition registerUser ::
  "externals \<Rightarrow> request \<Rightarrow> world \<Rightarrow> (thrown + int \<times> ApiResponse) \<times> world" where
  "registerUser ext req w =
     (case someFieldBlank req of
        Inl e \<Rightarrow> (Inl e, w)
      | Inr True \<Rightarrow> (Inl (ApiError 400 ''All fields are required''), w)
      | Inr False \<Rightarrow> afterValidation ext req w)"

section \<open>Names used in the statements\<close>

text \<open>A field value on which \<open>field?.trim()\<close> does not throw: \<open>undefined\<close>,
  \<open>null\<close> or a string.\<close>

definition stringOrAbsent :: "jsval option \<Rightarrow> bool" where
  "stringOrAbsent v =
     (case v of None \<Rightarrow> True | Some JNull \<Rightarrow> True | Some (JString s) \<Rightarrow> True | Some x \<Rightarrow> False)"

text \<open>\<open>coverImages?.url || ""\<close> as one value.\<close>

definition coverUrl :: "cloud_response option \<Rightarrow> string" where
  "coverUrl c = (case c of None \<Rightarrow> [] | Some r \<Rightarrow> url r)"

text \<open>The document that \<open>User.create\<close> stores for the object the handler builds
  (\<open>User_create_iff\<close> below): identifier \<open>i\<close>, the fields after the setters of the
  schema, the password after the \<open>pre('save')\<close> hook.\<close>

definition storedUser ::
  "externals \<Rightarrow> int \<Rightarrow> string \<Rightarrow> string \<Rightarrow> string \<Rightarrow> string \<Rightarrow> string \<Rightarrow> string \<Rightarrow> doc" where
  "storedUser ext i un f p e av cv =
     [(''_id'', JNumber i),
      (''username'', JString (toLowerCase (trim un))),
      (''fullName'', JString (trim f)),
      (''password'', JString (bcrypt_hash ext p 10)),
      (''email'', JString (toLowerCase (trim e))),
      (''avatar'', JString av),
      (''coverImage'', JString cv),
      (''watchHistory'', JArray []),
      (''createdAt'', JNumber (now ext)),
      (''updatedAt'', JNumber (now ext))]"

section \<open>Sample data\<close>

text \<open>A remote service that accepts one file, a hashing library that only prefixes
  (enough to tell a hash from its plaintext), and a fixed clock.\<close>

definition ext0 :: externals where
  "ext0 =
     \<lparr>uploader_upload =
        (\<lambda>p. if p = ''/tmp/a.png'' then Some \<lparr>url = ''http://c/a.png'', public_id = ''a''\<rparr>
             else None),
      bcrypt_hash = (\<lambda>p c. ''$2b$'' @ p),
      bcrypt_compare = (\<lambda>p h. h = ''$2b$'' @ p),
      now = 0\<rparr>"

definition a0 :: cloud_response where
  "a0 = \<lparr>url = ''http://c/a.png'', public_id = ''a''\<rparr>"

text \<open>The request of the specification's example, an empty collection with the avatar
  file in place, the document the example stores, and the world once it is stored (with
  the avatar file put back for a second request).\<close>

definition req_alice :: request where
  "req_alice =
     \<lparr>body = Some [(''username'', JString ''alice''), (''email'', JString ''a@x.com''),
                   (''password'', JString ''secret''), (''fullName'', JString ''Alice A'')],
      files = Some [(''avatar'', [\<lparr>path = ''/tmp/a.png''\<rparr>])]\<rparr>"

definition w0 :: world where
  "w0 = \<lparr>localFiles = {''/tmp/a.png''}, users = []\<rparr>"

definition alice_doc :: doc where
  "alice_doc =
     [(''_id'', JNumber 1),
      (''username'', JString ''alice''),
      (''fullName'', JString ''Alice A''),
      (''password'', JString ''$2b$secret''),
      (''email'', JString ''a@x.com''),
      (''avatar'', JString ''http://c/a.png''),
      (''coverImage'', JString []),
      (''watchHistory'', JArray []),
      (''createdAt'', JNumber 0),
      (''updatedAt'', JNumber 0)]"

definition w_alice :: world where
  "w_alice = \<lparr>localFiles = {''/tmp/a.png''}, users = [alice_doc]\<rparr>"

text \<open>A request whose text fields carry surrounding blanks and capitals.\<close>

definition req_padded :: request where
  "req_padded =
     \<lparr>body = Some [(''username'', JString ''Alice''), (''email'', JString '' A@x.com''),
                   (''password'', JString ''secret''), (''fullName'', JString '' Alice A'')],
      files = Some [(''avatar'', [\<lparr>path = ''/tmp/a.png''\<rparr>])]\<rparr>"

text \<open>The object the handler hands to \<open>User.create\<close> for that request.\<close>

definition padded_object :: props where
  "padded_object =
     [(''fullName'', Some '' Alice A''),
      (''email'', Some '' A@x.com''),
      (''username'', Some ''alice''),
      (''password'', Some ''secret''),
      (''avatar'', Some ''http://c/a.png''),
      (''coverImage'', Some [])]"

section \<open>The upload contract\<close>

lemma upload_catch_result:
  "upload_catch (Some p) fs = (Inr None, if p = [] then fs else fs - {p})"
  by (auto simp: upload_catch_def existsSync_def unlinkSync_def)

lemma uploadOnCloudinary_never_throws:
  "fst (uploadOnCloudinary ext p fs) \<noteq> Inl e"
  by (cases p)
     (auto simp: uploadOnCloudinary_def upload_catch_result unlinkSync_def split: option.splits)

text \<open>
  C7. \<open>uploadOnCloudinary\<close> keeps the contract \<open>upload(localPath) -> descriptor | null\<close>:
  an absent (or empty) path gives \<open>null\<close> and leaves the files alone; when the remote
  call fails the result is \<open>null\<close> and the file at the path, if there is one, is gone;
  when the remote call succeeds on an existing local file, the file is deleted and the
  remote descriptor is returned. (When the remote call succeeds but no local file is
  there, \<open>unlinkSync\<close> throws inside the \<open>try\<close> and the result is \<open>null\<close>.)
\<close>

theorem uploadOnCloudinary_contract:
  "uploadOnCloudinary ext None fs = (Inr None, fs) \<and>
   uploadOnCloudinary ext (Some []) fs = (Inr None, fs) \<and>
   (p \<noteq> [] \<and> uploader_upload ext p = None \<longrightarrow>
      uploadOnCloudinary ext (Some p) fs = (Inr None, fs - {p})) \<and>
   (p \<noteq> [] \<and> uploader_upload ext p = Some r \<and> p \<in> fs \<longrightarrow>
      uploadOnCloudinary ext (Some p) fs = (Inr (Some r), fs - {p})) \<and>
   (p \<noteq> [] \<and> uploader_upload ext p = Some r \<and> p \<notin> fs \<longrightarrow>
      uploadOnCloudinary ext (Some p) fs = (Inr None, fs))"
  by (simp add: uploadOnCloudinary_def upload_catch_result unlinkSync_def)

theorem uploadOnCloudinary_contract_witness:
  "uploader_upload ext0 ''/tmp/b.png'' = None \<and>
   uploadOnCloudinary ext0 (Some ''/tmp/b.png'') {''/tmp/a.png'', ''/tmp/b.png''}
     = (Inr None, {''/tmp/a.png''}) \<and>
   uploader_upload ext0 ''/tmp/a.png'' = Some \<lparr>url = ''http://c/a.png'', public_id = ''a''\<rparr> \<and>
   uploadOnCloudinary ext0 (Some ''/tmp/a.png'') {''/tmp/a.png'', ''/tmp/b.png''}
     = (Inr (Some \<lparr>url = ''http://c/a.png'', public_id = ''a''\<rparr>), {''/tmp/b.png''}) \<and>
   uploadOnCloudinary ext0 (Some ''/tmp/a.png'') {''/tmp/b.png''} = (Inr None, {''/tmp/b.png''})"
  using uploadOnCloudinary_contract [of ext0 "{''/tmp/a.png'', ''/tmp/b.png''}" "''/tmp/b.png''"]
        uploadOnCloudinary_contract [of ext0 "{''/tmp/a.png'', ''/tmp/b.png''}" "''/tmp/a.png''"
           "\<lparr>url = ''http://c/a.png'', public_id = ''a''\<rparr>"]
        uploadOnCloudinary_contract [of ext0 "{''/tmp/b.png''}" "''/tmp/a.png''"
           "\<lparr>url = ''http://c/a.png'', public_id = ''a''\<rparr>"]
  by (simp add: ext0_def insert_Diff_if)

text \<open>The earlier draft does not keep the contract: it throws on an absent path and
  never returns a descriptor.\<close>

lemma uploadOnCloudinary_draft_no_descriptor:
  "uploadOnCloudinary_draft None fs
     = (Inl (TypeError ''The path argument must be of type string''), fs) \<and>
   fst (uploadOnCloudinary_draft p fs) \<noteq> Inr (Some r)"
  by (auto simp: uploadOnCloudinary_draft_def unlinkSync_def split: option.splits)

section \<open>Facts about strings\<close>

lemma trim_Nil: "trim [] = []"
  by (simp add: trim_def)

lemma isWhiteSpace_lowerChar: "isWhiteSpace (lowerChar c) = isWhiteSpace c"
  by (auto simp: isWhiteSpace_def lowerChar_def Let_def)

lemma dropWhile_ws_lower:
  "dropWhile isWhiteSpace (map lowerChar s) = map lowerChar (dropWhile isWhiteSpace s)"
  by (induction s) (simp_all add: isWhiteSpace_lowerChar)

lemma trim_toLowerCase: "trim (toLowerCase s) = toLowerCase (trim s)"
  by (simp add: trim_def toLowerCase_def dropWhile_ws_lower rev_map)

lemma lowerChar_idem: "lowerChar (lowerChar c) = lowerChar c"
  by (auto simp: lowerChar_def Let_def)

lemma toLowerCase_idem: "toLowerCase (toLowerCase s) = toLowerCase s"
  by (simp add: toLowerCase_def lowerChar_idem)

lemma toLowerCase_Nil: "toLowerCase s = [] \<longleftrightarrow> s = []"
  by (simp add: toLowerCase_def)

section \<open>Facts about the repository\<close>

lemma fold_max_ge: "(a::int) \<le> fold max xs a"
  by (induction xs arbitrary: a) (auto intro: order_trans [OF max.cobounded2])

lemma fold_max_mem: "x \<in> set xs \<Longrightarrow> (x::int) \<le> fold max xs a"
proof (induction xs arbitrary: a)
  case Nil
  then show ?case by simp
next
  case (Cons y ys)
  show ?case
  proof (cases "x = y")
    case True
    have "y \<le> max y a" by simp
    also have "\<dots> \<le> fold max ys (max y a)" by (rule fold_max_ge)
    finally show ?thesis using True by simp
  next
    case False
    with Cons show ?thesis by simp
  qed
qed

lemma freshId_fresh: "e \<in> set coll \<Longrightarrow> idOf e \<noteq> Some (freshId coll)"
proof
  assume e: "e \<in> set coll" and i: "idOf e = Some (freshId coll)"
  from e have "(case idOf e of None \<Rightarrow> 0 | Some i \<Rightarrow> i)
      \<in> set (map (\<lambda>d. case idOf d of None \<Rightarrow> 0 | Some i \<Rightarrow> i) coll)"
    by simp
  from fold_max_mem [OF this, of 0] i show False
    by (simp add: freshId_def)
qed

lemma find_append_fresh:
  "\<forall>e \<in> set coll. \<not> P e \<Longrightarrow> P d \<Longrightarrow> find P (coll @ [d]) = Some d"
  by (induction coll) auto

lemma idOf_storedUser: "idOf (storedUser ext i un f p e av cv) = Some i"
  by (simp add: idOf_def storedUser_def)

lemma findById_storedUser:
  "findById (Some (freshId coll)) (coll @ [storedUser ext (freshId coll) un f p e av cv])
     = Some (storedUser ext (freshId coll) un f p e av cv)"
  by (simp add: findById_def find_append_fresh freshId_fresh idOf_storedUser)

lemma select_spec:
  "select ''-password -refreshToken '' d
     = filter (\<lambda>(k, v). k \<noteq> ''password'' \<and> k \<noteq> ''refreshToken'') d"
  by (simp add: select_def excluded_def included_def isWhiteSpace_def)

section \<open>\<open>User.create\<close> on the object the handler builds\<close>

lemma castDoc_userObject:
  "castDoc [(''fullName'', fn), (''email'', em), (''username'', Some un),
            (''password'', pw), (''avatar'', Some av), (''coverImage'', Some cv)] =
     [(''username'', JString (toLowerCase (trim un)))] @
     (case fn of None \<Rightarrow> [] | Some s \<Rightarrow> [(''fullName'', JString (trim s))]) @
     (case pw of None \<Rightarrow> [] | Some s \<Rightarrow> [(''password'', JString s)]) @
     (case em of None \<Rightarrow> [] | Some s \<Rightarrow> [(''email'', JString (toLowerCase (trim s)))]) @
     [(''avatar'', JString av), (''coverImage'', JString cv)]"
  by (simp add: castDoc_def userSchema_def getProp_def applySetters_def split: option.splits)

lemma User_create_iff:
  "User_create ext [(''fullName'', fn), (''email'', em), (''username'', Some un),
            (''password'', pw), (''avatar'', Some av), (''coverImage'', Some cv)] coll = Inr (saved, coll')
   \<longleftrightarrow>
   (\<exists>f p e. fn = Some f \<and> pw = Some p \<and> em = Some e \<and>
       toLowerCase (trim un) \<noteq> [] \<and> trim f \<noteq> [] \<and> p \<noteq> [] \<and> toLowerCase (trim e) \<noteq> [] \<and> av \<noteq> [] \<and>
       saved = storedUser ext (freshId coll) un f p e av cv \<and>
       duplicateKeys saved coll = [] \<and> coll' = coll @ [saved])"
  apply (simp only: User_create_def castDoc_userObject Let_def)
  apply (cases fn; cases pw; cases em)
  apply (auto simp add: validateSync_def userSchema_def checkRequired_def pre_save_def insertOne_def storedUser_def
       split: if_splits list.splits sum.splits)
  done

lemma User_create_ok:
  "toLowerCase (trim un) \<noteq> [] \<Longrightarrow> trim f \<noteq> [] \<Longrightarrow> p \<noteq> [] \<Longrightarrow>
   toLowerCase (trim e) \<noteq> [] \<Longrightarrow> av \<noteq> [] \<Longrightarrow>
   duplicateKeys (storedUser ext (freshId coll) un f p e av cv) coll = [] \<Longrightarrow>
   User_create ext [(''fullName'', Some f), (''email'', Some e), (''username'', Some un),
            (''password'', Some p), (''avatar'', Some av), (''coverImage'', Some cv)] coll
     = Inr (storedUser ext (freshId coll) un f p e av cv,
            coll @ [storedUser ext (freshId coll) un f p e av cv])"
  by (simp add: User_create_iff)


lemma duplicateKeys_storedUser:
  "duplicateKeys (storedUser ext i un f p e av cv) coll = [] \<longleftrightarrow>
     (\<forall>d \<in> set coll. map_of d ''username'' \<noteq> Some (JString (toLowerCase (trim un))) \<and>
                     map_of d ''email'' \<noteq> Some (JString (toLowerCase (trim e))))"
  by (auto simp: duplicateKeys_def userSchema_def storedUser_def list_ex_iff)

section \<open>Facts about the handler\<close>

lemma strOf_Some_iff: "strOf v = Some s \<longleftrightarrow> v = Some (JString s)"
  by (auto simp: strOf_def split: option.splits jsval.splits)

lemma strOf_JString: "strOf (Some (JString s)) = Some s"
  by (simp add: strOf_def)

lemma someBlank_False_iff:
  "someBlank fs = Inr False \<longleftrightarrow>
     (\<forall>v \<in> set fs. v = None \<or> v = Some JNull \<or> (\<exists>s. v = Some (JString s) \<and> trim s \<noteq> []))"
  by (induction fs rule: someBlank.induct) auto

lemma someBlank_prefix:
  "\<forall>v \<in> set pre. stringOrAbsent v \<Longrightarrow> trim s = [] \<Longrightarrow>
     someBlank (pre @ Some (JString s) # post) = Inr True"
  by (induction pre rule: someBlank.induct) (auto simp: stringOrAbsent_def)

lemma someBlank_True:
  "someBlank fs = Inr True \<Longrightarrow>
     \<exists>pre s post. fs = pre @ Some (JString s) # post \<and> trim s = [] \<and>
        (\<forall>v \<in> set pre. stringOrAbsent v)"
proof (induction fs rule: someBlank.induct)
  case 1
  then show ?case by simp
next
  case (2 fs)
  then obtain pre s post where "fs = pre @ Some (JString s) # post" "trim s = []"
    "\<forall>v \<in> set pre. stringOrAbsent v" by auto
  then have "None # fs = (None # pre) @ Some (JString s) # post \<and> trim s = [] \<and>
      (\<forall>v \<in> set (None # pre). stringOrAbsent v)"
    by (simp add: stringOrAbsent_def)
  then show ?case by blast
next
  case (3 fs)
  then obtain pre s post where "fs = pre @ Some (JString s) # post" "trim s = []"
    "\<forall>v \<in> set pre. stringOrAbsent v" by auto
  then have "Some JNull # fs = (Some JNull # pre) @ Some (JString s) # post \<and> trim s = [] \<and>
      (\<forall>v \<in> set (Some JNull # pre). stringOrAbsent v)"
    by (simp add: stringOrAbsent_def)
  then show ?case by blast
next
  case (4 t fs)
  show ?case
  proof (cases "trim t = []")
    case True
    then have "Some (JString t) # fs = [] @ Some (JString t) # fs \<and> trim t = [] \<and>
      (\<forall>v \<in> set []. stringOrAbsent v)" by simp
    then show ?thesis by blast
  next
    case False
    with 4 obtain pre s post where "fs = pre @ Some (JString s) # post" "trim s = []"
      "\<forall>v \<in> set pre. stringOrAbsent v" by auto
    then have "Some (JString t) # fs = (Some (JString t) # pre) @ Some (JString s) # post \<and>
        trim s = [] \<and> (\<forall>v \<in> set (Some (JString t) # pre). stringOrAbsent v)"
      by (simp add: stringOrAbsent_def)
    then show ?thesis by blast
  qed
qed simp_all

lemma someBlank_True_iff:
  "someBlank fs = Inr True \<longleftrightarrow>
     (\<exists>pre s post. fs = pre @ Some (JString s) # post \<and> trim s = [] \<and>
        (\<forall>v \<in> set pre. stringOrAbsent v))"
  using someBlank_True someBlank_prefix by blast

lemma someFieldBlank_False_iff:
  "someFieldBlank req = Inr False \<longleftrightarrow>
     body req \<noteq> None \<and>
     (\<forall>k \<in> set fieldNames. fieldOf req k = None \<or> fieldOf req k = Some JNull \<or>
        (\<exists>s. fieldOf req k = Some (JString s) \<and> trim s \<noteq> []))"
  by (cases "body req") (simp_all add: someFieldBlank_def someBlank_False_iff)

lemma not_blank_fields:
  assumes "someFieldBlank req = Inr False" and "fieldOf req k = Some (JString s)"
    and "k \<in> set fieldNames"
  shows "trim s \<noteq> []" and "s \<noteq> []"
proof -
  show t: "trim s \<noteq> []"
    using assms someFieldBlank_False_iff [of req] by auto
  then show "s \<noteq> []"
    using trim_Nil by auto
qed

lemma uploadOnCloudinary_eq:
  "uploadOnCloudinary ext p fs =
     (Inr (case p of None \<Rightarrow> None
           | Some q \<Rightarrow> if q \<noteq> [] \<and> q \<in> fs then uploader_upload ext q else None),
      case p of None \<Rightarrow> fs | Some q \<Rightarrow> if q = [] then fs else fs - {q})"
  by (auto simp: uploadOnCloudinary_def upload_catch_def existsSync_def unlinkSync_def
           split: option.splits)


lemma coverImagesUpload_resolves: "\<exists>r. fst (coverImagesUpload ext req w) = Inr r"
  by (simp add: coverImagesUpload_def uploadOnCloudinary_eq)

lemma coverImagesUpload_absent:
  "coverImagesLocalPath req = None \<Longrightarrow>
     coverImagesUpload ext req w = (Inr None, snd (avatarUpload ext req w))"
  by (simp add: coverImagesUpload_def uploadOnCloudinary_def)

text \<open>Once the three checks are passed the outcome is that of the two uploads and of
  the creation.\<close>

lemma afterValidation_uploads:
  assumes "existedUser req w = None" "\<not> falsy (avatarLocalPath req)"
    and "fst (avatarUpload ext req w) = Inr av" "fst (coverImagesUpload ext req w) = Inr cv"
  shows "afterValidation ext req w =
     (case av of
        None \<Rightarrow> (Inl (ApiError 400 ''Avatar upload failed''),
                 w\<lparr>localFiles := snd (coverImagesUpload ext req w)\<rparr>)
      | Some a \<Rightarrow> createAndRespond ext req a cv
                   (w\<lparr>localFiles := snd (coverImagesUpload ext req w)\<rparr>))"
proof -
  obtain fs1 where a: "avatarUpload ext req w = (Inr av, fs1)"
    using assms(3) by (cases "avatarUpload ext req w") simp
  obtain fs2 where c: "coverImagesUpload ext req w = (Inr cv, fs2)"
    using assms(4) by (cases "coverImagesUpload ext req w") simp
  show ?thesis
    using assms(1-2) by (simp add: afterValidation_def a c split: option.splits)
qed

lemma registerUser_after_checks:
  assumes "someFieldBlank req = Inr False" "existedUser req w = None" "\<not> falsy (avatarLocalPath req)"
    and "fst (avatarUpload ext req w) = Inr av" "fst (coverImagesUpload ext req w) = Inr cv"
  shows "registerUser ext req w =
     (case av of
        None \<Rightarrow> (Inl (ApiError 400 ''Avatar upload failed''),
                 w\<lparr>localFiles := snd (coverImagesUpload ext req w)\<rparr>)
      | Some a \<Rightarrow> createAndRespond ext req a cv
                   (w\<lparr>localFiles := snd (coverImagesUpload ext req w)\<rparr>))"
  using afterValidation_uploads [OF assms(2-5)] assms(1) by (simp add: registerUser_def)

lemma createAndRespond_Inr_iff:
  "createAndRespond ext req a c w = (Inr resp, w') \<longleftrightarrow>
   (\<exists>un f p e saved.
       fieldOf req ''username'' = Some (JString un) \<and> fieldOf req ''fullName'' = Some (JString f) \<and>
       fieldOf req ''password'' = Some (JString p) \<and> fieldOf req ''email'' = Some (JString e) \<and>
       toLowerCase (trim un) \<noteq> [] \<and> trim f \<noteq> [] \<and> p \<noteq> [] \<and>
       toLowerCase (trim e) \<noteq> [] \<and> url a \<noteq> [] \<and>
       saved = storedUser ext (freshId (users w)) un f p e (url a) (coverUrl c) \<and>
       duplicateKeys saved (users w) = [] \<and>
       w' = w\<lparr>users := users w @ [saved]\<rparr> \<and>
       resp = (201, new_ApiResponse 201 (JObject (select ''-password -refreshToken '' saved))
                      (JString ''User created successfully'')))"
proof (cases "strOf (fieldOf req ''username'')")
  case None
  then have "\<And>un. fieldOf req ''username'' \<noteq> Some (JString un)"
    by (auto simp: strOf_def)
  with None show ?thesis by (simp add: createAndRespond_def userObject_def)
next
  case (Some un)
  then have un: "fieldOf req ''username'' = Some (JString un)"
    by (simp add: strOf_Some_iff)
  have cv: "(case c of None \<Rightarrow> [] | Some c \<Rightarrow> if url c = [] then [] else url c) = coverUrl c"
    by (simp add: coverUrl_def split: option.splits)
  have su: "storedUser ext i (toLowerCase un) f p e av cv' = storedUser ext i un f p e av cv'"
    for i f p e av cv'
    by (simp add: storedUser_def trim_toLowerCase toLowerCase_idem)
  show ?thesis
    apply (simp add: createAndRespond_def userObject_def Some cv)
    apply (cases "User_create ext
            [(''fullName'', strOf (fieldOf req ''fullName'')), (''email'', strOf (fieldOf req ''email'')),
             (''username'', Some (toLowerCase un)), (''password'', strOf (fieldOf req ''password'')),
             (''avatar'', Some (url a)), (''coverImage'', Some (coverUrl c))] (users w)")
    subgoal for e
      using User_create_ok [of "toLowerCase un" _ _ _ "url a" ext "users w" "coverUrl c"]
      by (auto simp: su trim_toLowerCase toLowerCase_idem strOf_JString un)
    subgoal for r
      apply (cases r)
      subgoal for saved coll
        using User_create_iff [of ext "strOf (fieldOf req ''fullName'')" "strOf (fieldOf req ''email'')" "toLowerCase un"
           "strOf (fieldOf req ''password'')" "url a" "coverUrl c" "users w" saved coll]
        by (auto simp: findById_storedUser idOf_storedUser su trim_toLowerCase toLowerCase_idem
              strOf_Some_iff un)
      done
    done
qed


lemma registerUser_Inr_iff:
  "registerUser ext req w = (Inr resp, w') \<longleftrightarrow>
     someFieldBlank req = Inr False \<and> existedUser req w = None \<and> \<not> falsy (avatarLocalPath req) \<and>
     (\<exists>a c. fst (avatarUpload ext req w) = Inr (Some a) \<and> fst (coverImagesUpload ext req w) = Inr c \<and>
        createAndRespond ext req a c (w\<lparr>localFiles := snd (coverImagesUpload ext req w)\<rparr>) = (Inr resp, w'))"
  by (auto simp: registerUser_def afterValidation_def split: prod.splits sum.splits option.splits bool.splits)

lemma castFilter_email: "castFilter ''email'' s = toLowerCase (trim s)"
  by (simp add: castFilter_def userSchema_def applySetters_def)

lemma castFilter_username: "castFilter ''username'' s = toLowerCase (trim s)"
  by (simp add: castFilter_def userSchema_def applySetters_def)

lemma existedUser_None_iff:
  "existedUser req w = None \<longleftrightarrow>
     (\<forall>d \<in> set (users w).
        map_of d ''email'' \<noteq> map_option (\<lambda>s. JString (toLowerCase (trim s))) (strOf (fieldOf req ''email'')) \<and>
        map_of d ''username'' \<noteq> map_option (\<lambda>s. JString (toLowerCase (trim s))) (strOf (fieldOf req ''username'')))"
  by (auto simp: existedUser_def findOne_or_def find_None_iff castFilter_email castFilter_username)

lemma existedUser_no_duplicateKeys:
  assumes "existedUser req w = None"
    and "fieldOf req ''username'' = Some (JString un)" "fieldOf req ''email'' = Some (JString e)"
  shows "duplicateKeys (storedUser ext i un f p e av cv) (users w) = []"
  using assms by (auto simp: existedUser_None_iff duplicateKeys_storedUser strOf_JString)

section \<open>The sample run\<close>

text \<open>The definitions to unfold when a concrete request is evaluated.\<close>

lemmas eval_defs =
  registerUser_def afterValidation_def someFieldBlank_def fieldOf_def fieldNames_def strOf_def
  existedUser_def findOne_or_def castFilter_def falsy_def
  avatarLocalPath_def coverImagesLocalPath_def localPath_def avatarUpload_def coverImagesUpload_def
  uploadOnCloudinary_def upload_catch_def existsSync_def unlinkSync_def
  createAndRespond_def userObject_def User_create_def castDoc_def userSchema_def getProp_def
  applySetters_def validateSync_def checkRequired_def pre_save_def insertOne_def duplicateKeys_def
  freshId_def idOf_def findById_def select_spec new_ApiResponse_def
  trim_def isWhiteSpace_def toLowerCase_def lowerChar_def Let_def

lemma char_of_97: "char_of (97::nat) = CHR ''a''"
  by code_simp

lemma registerUser_alice:
  "registerUser ext0 req_alice w0 =
     (Inr (201, \<lparr>statusCode = 201,
                 message = JObject (select ''-password -refreshToken '' alice_doc),
                 data = JString ''User created successfully'',
                 success = True\<rparr>),
      \<lparr>localFiles = {}, users = [alice_doc]\<rparr>)"
  by (simp add: eval_defs ext0_def req_alice_def w0_def alice_doc_def)

lemma registerUser_alice_again:
  "registerUser ext0 req_alice w_alice = (Inl (ApiError 409 ''User already exists''), w_alice)"
  by (simp add: eval_defs ext0_def req_alice_def w_alice_def alice_doc_def)

lemma registerUser_padded:
  "registerUser ext0 req_padded w0 =
     (Inr (201, new_ApiResponse 201 (JObject (select ''-password -refreshToken '' alice_doc))
                  (JString ''User created successfully'')),
      \<lparr>localFiles = {}, users = [alice_doc]\<rparr>)"
  by (simp add: eval_defs ext0_def req_padded_def w0_def alice_doc_def char_of_97)

lemma registerUser_padded_again:
  "registerUser ext0 req_padded w_alice = (Inl (ApiError 409 ''User already exists''), w_alice)"
  by (simp add: eval_defs ext0_def req_padded_def w_alice_def alice_doc_def char_of_97)

section \<open>Field validation\<close>



lemma someFieldBlank_True_iff:
  "someFieldBlank req = Inr True \<longleftrightarrow>
     (\<exists>pre s post. body req \<noteq> None \<and> map (fieldOf req) fieldNames = pre @ Some (JString s) # post \<and>
        trim s = [] \<and> (\<forall>v \<in> set pre. stringOrAbsent v))"
  by (cases "body req") (simp_all add: someFieldBlank_def someBlank_True_iff)


text \<open>
  C3, as amended. When the body is defined, one of the four required fields (full
  name, email, password, username, checked in this order) is a string whose trimmed
  value is the empty string, and every field checked before it is absent, null or a
  string, the handler throws the error with status 400 and message "All fields are
  required". It does so whatever the collection, the files and the remote service are,
  and it returns the world as it found it: no repository or upload call has been made.
\<close>

theorem registerUser_blank_field:
  assumes "body req = Some b"
    and "map (fieldOf req) fieldNames = pre @ Some (JString s) # post"
    and "trim s = []"
    and "\<forall>v \<in> set pre. stringOrAbsent v"
  shows "registerUser ext req w = (Inl (ApiError 400 ''All fields are required''), w)"
proof -
  from assms have "someFieldBlank req = Inr True"
    unfolding someFieldBlank_True_iff by blast
  then show ?thesis by (simp add: registerUser_def)
qed

theorem registerUser_blank_field_witness:
  "body (req_alice\<lparr>body := Some [(''username'', JString ''alice''), (''password'', JString ''  '')]\<rparr>)
     = Some [(''username'', JString ''alice''), (''password'', JString ''  '')] \<and>
   map (fieldOf (req_alice\<lparr>body := Some [(''username'', JString ''alice''),
                                           (''password'', JString ''  '')]\<rparr>)) fieldNames
     = [None, None] @ Some (JString ''  '') # [Some (JString ''alice'')] \<and>
   trim ''  '' = [] \<and> stringOrAbsent None \<and>
   registerUser ext0 (req_alice\<lparr>body := Some [(''username'', JString ''alice''),
                                              (''password'', JString ''  '')]\<rparr>) w_alice
     = (Inl (ApiError 400 ''All fields are required''), w_alice)"
proof -
  let ?r = "req_alice\<lparr>body := Some [(''username'', JString ''alice''), (''password'', JString ''  '')]\<rparr>"
  have 1: "body ?r = Some [(''username'', JString ''alice''), (''password'', JString ''  '')]"
    by simp
  have 2: "map (fieldOf ?r) fieldNames = [None, None] @ Some (JString ''  '') # [Some (JString ''alice'')]"
    by (simp add: fieldOf_def fieldNames_def)
  have 3: "trim ''  '' = []"
    by (simp add: trim_def isWhiteSpace_def)
  have 4: "\<forall>v \<in> set [None, None]. stringOrAbsent v"
    by (simp add: stringOrAbsent_def)
  from registerUser_blank_field [OF 1 2 3 4, of ext0 w_alice] 1 2 3 4
  show ?thesis by simp
qed

text \<open>As first stated (for every request with a blank field) it fails: with a JSON
  body whose full name is the number 5 and whose email is the empty string, the check
  visits the full name first and \<open>trim\<close> is not a function of a number.\<close>

theorem registerUser_blank_field_counterexample:
  "fieldOf (req_alice\<lparr>body := Some [(''fullName'', JNumber 5), (''email'', JString [])]\<rparr>) ''email''
     = Some (JString []) \<and>
   trim [] = [] \<and>
   registerUser ext0 (req_alice\<lparr>body := Some [(''fullName'', JNumber 5), (''email'', JString [])]\<rparr>) w0
     = (Inl (TypeError ''field?.trim is not a function''), w0) \<and>
   TypeError ''field?.trim is not a function'' \<noteq> ApiError 400 ''All fields are required''"
  by (simp add: eval_defs trim_Nil)




section \<open>Duplication check\<close>

lemma existedUser_Some:
  assumes "u \<in> set (users w)"
    and "(\<exists>e. fieldOf req ''email'' = Some (JString e) \<and>
              map_of u ''email'' = Some (JString (toLowerCase (trim e)))) \<or>
         (\<exists>n. fieldOf req ''username'' = Some (JString n) \<and>
              map_of u ''username'' = Some (JString (toLowerCase (trim n))))"
  shows "\<exists>found. existedUser req w = Some found"
proof (cases "existedUser req w")
  case None
  with assms show ?thesis
    unfolding existedUser_None_iff by (auto simp: strOf_JString)
next
  case (Some found)
  then show ?thesis by simp
qed

text \<open>
  C4, as amended. For every request that passes the field validation and whose email
  or username, trimmed and lowercased as the query is cast, is the one of a stored user,
  the handler throws the error with status 409 and message "User already exists", the
  same whichever field matched, and the world is unchanged: no record is persisted.
\<close>

theorem duplicate_user_conflict:
  assumes "someFieldBlank req = Inr False"
    and "u \<in> set (users w)"
    and "(\<exists>e. fieldOf req ''email'' = Some (JString e) \<and>
              map_of u ''email'' = Some (JString (toLowerCase (trim e)))) \<or>
         (\<exists>n. fieldOf req ''username'' = Some (JString n) \<and>
              map_of u ''username'' = Some (JString (toLowerCase (trim n))))"
  shows "registerUser ext req w = (Inl (ApiError 409 ''User already exists''), w)"
  using existedUser_Some [OF assms(2,3)] assms(1)
  by (auto simp: registerUser_def afterValidation_def)

theorem duplicate_user_conflict_witness:
  "someFieldBlank req_padded = Inr False \<and> alice_doc \<in> set (users w_alice) \<and>
   fieldOf req_padded ''email'' = Some (JString '' A@x.com'') \<and>
   map_of alice_doc ''email'' = Some (JString (toLowerCase (trim '' A@x.com''))) \<and>
   registerUser ext0 req_padded w_alice = (Inl (ApiError 409 ''User already exists''), w_alice)"
proof -
  have 1: "someFieldBlank req_padded = Inr False"
    by (simp add: someFieldBlank_def fieldOf_def fieldNames_def req_padded_def trim_def isWhiteSpace_def)
  have 2: "alice_doc \<in> set (users w_alice)"
    by (simp add: w_alice_def)
  have 3: "fieldOf req_padded ''email'' = Some (JString '' A@x.com'')"
    by (simp add: req_padded_def fieldOf_def)
  have 4: "map_of alice_doc ''email'' = Some (JString (toLowerCase (trim '' A@x.com'')))"
    by (simp add: alice_doc_def trim_def isWhiteSpace_def toLowerCase_def lowerChar_def char_of_97)
  from 3 4 have 5: "(\<exists>e. fieldOf req_padded ''email'' = Some (JString e) \<and>
              map_of alice_doc ''email'' = Some (JString (toLowerCase (trim e)))) \<or>
         (\<exists>n. fieldOf req_padded ''username'' = Some (JString n) \<and>
              map_of alice_doc ''username'' = Some (JString (toLowerCase (trim n))))"
    by blast
  show ?thesis
    using duplicate_user_conflict [OF 1 2 5, of ext0] 1 2 3 4 by simp
qed

text \<open>Without the proviso the statement fails: a request whose email is the one of
  a stored user and whose full name is blank gets status 400, not 409.\<close>

theorem duplicate_user_blank_field_counterexample:
  "alice_doc \<in> set (users w_alice) \<and>
   map_of alice_doc ''email'' = Some (JString ''a@x.com'') \<and>
   fieldOf (req_alice\<lparr>body := Some [(''username'', JString ''alice''), (''email'', JString ''a@x.com''),
                (''password'', JString ''secret''), (''fullName'', JString '' '')]\<rparr>) ''email''
     = Some (JString ''a@x.com'') \<and>
   registerUser ext0 (req_alice\<lparr>body := Some [(''username'', JString ''alice''),
                (''email'', JString ''a@x.com''), (''password'', JString ''secret''),
                (''fullName'', JString '' '')]\<rparr>) w_alice
     = (Inl (ApiError 400 ''All fields are required''), w_alice) \<and>
   ApiError 400 ''All fields are required'' \<noteq> ApiError 409 ''User already exists''"
  by (simp add: eval_defs ext0_def req_alice_def w_alice_def alice_doc_def)

section \<open>Avatar presence check\<close>

lemma createAndRespond_body:
  assumes "body req2 = body req"
  shows "createAndRespond ext req2 a c w = createAndRespond ext req a c w"
  unfolding createAndRespond_def userObject_def fieldOf_def assms by (rule refl)

lemma cover_never_blocks:
  assumes "createAndRespond ext req a c w1 = (Inr resp, w')" and "users w2 = users w1"
  shows "\<exists>resp2 w2'. createAndRespond ext req a c2 w2 = (Inr resp2, w2')"
  using assms
  by (auto simp: createAndRespond_Inr_iff duplicateKeys_storedUser)

text \<open>
  C5, as amended. For every request without an avatar file path whose field check
  does not throw (the body is defined and no field checked is of another type than
  string) and for which the duplication check finds no stored user, the handler throws
  an error with status 400 ("All fields are required" when a field is blank, "Avatar is
  required" otherwise, so also when all four fields are valid) and leaves the world
  unchanged. The absence of a cover-image file never by itself causes an error: if a
  request registers successfully, so does the request with the same body and the same
  avatar but no cover-image file.
\<close>

theorem missing_avatar_rejected:
  "(someFieldBlank req = Inr blank \<and> falsy (avatarLocalPath req) \<and> existedUser req w = None \<longrightarrow>
      registerUser ext req w =
        (Inl (ApiError 400 (if blank then ''All fields are required''
                            else ''Avatar is required'')), w)) \<and>
   (coverImagesLocalPath req = None \<and> body req2 = body req \<and>
    avatarLocalPath req2 = avatarLocalPath req \<and> registerUser ext req2 w = (Inr resp2, w2) \<longrightarrow>
      (\<exists>resp w'. registerUser ext req w = (Inr resp, w')))"
proof (intro conjI impI)
  assume "someFieldBlank req = Inr blank \<and> falsy (avatarLocalPath req) \<and> existedUser req w = None"
  then show "registerUser ext req w =
        (Inl (ApiError 400 (if blank then ''All fields are required''
                            else ''Avatar is required'')), w)"
    by (simp add: registerUser_def afterValidation_def)
next
  assume h: "coverImagesLocalPath req = None \<and> body req2 = body req \<and>
    avatarLocalPath req2 = avatarLocalPath req \<and> registerUser ext req2 w = (Inr resp2, w2)"
  then have nc: "coverImagesLocalPath req = None" and b: "body req2 = body req"
    and ap: "avatarLocalPath req2 = avatarLocalPath req"
    and ok: "registerUser ext req2 w = (Inr resp2, w2)"
    by blast+
  from ok obtain a c where
    pre: "someFieldBlank req2 = Inr False" "existedUser req2 w = None" "\<not> falsy (avatarLocalPath req2)"
    and up: "fst (avatarUpload ext req2 w) = Inr (Some a)"
    and cr: "createAndRespond ext req2 a c (w\<lparr>localFiles := snd (coverImagesUpload ext req2 w)\<rparr>) = (Inr resp2, w2)"
    unfolding registerUser_Inr_iff by blast
  have pre': "someFieldBlank req = Inr False" "existedUser req w = None" "\<not> falsy (avatarLocalPath req)"
    using pre unfolding someFieldBlank_def existedUser_def fieldOf_def b ap by blast+
  have up': "fst (avatarUpload ext req w) = Inr (Some a)"
    using up unfolding avatarUpload_def ap .
  have cv': "fst (coverImagesUpload ext req w) = Inr None"
    by (simp add: coverImagesUpload_absent [OF nc])
  from cover_never_blocks [OF cr, of "w\<lparr>localFiles := snd (coverImagesUpload ext req w)\<rparr>" None]
  obtain resp w' where
    "createAndRespond ext req2 a None (w\<lparr>localFiles := snd (coverImagesUpload ext req w)\<rparr>) = (Inr resp, w')"
    by auto
  then have "createAndRespond ext req a None (w\<lparr>localFiles := snd (coverImagesUpload ext req w)\<rparr>) = (Inr resp, w')"
    by (simp only: createAndRespond_body [OF b])
  then show "\<exists>resp w'. registerUser ext req w = (Inr resp, w')"
    using registerUser_after_checks [OF pre' up' cv'] by simp
qed

theorem missing_avatar_rejected_witness:
  "someFieldBlank (req_alice\<lparr>files := None\<rparr>) = Inr False \<and>
   falsy (avatarLocalPath (req_alice\<lparr>files := None\<rparr>)) \<and>
   existedUser (req_alice\<lparr>files := None\<rparr>) w0 = None \<and>
   registerUser ext0 (req_alice\<lparr>files := None\<rparr>) w0 = (Inl (ApiError 400 ''Avatar is required''), w0) \<and>
   coverImagesLocalPath req_alice = None \<and>
   coverImagesLocalPath (req_alice\<lparr>files := Some [(''avatar'', [\<lparr>path = ''/tmp/a.png''\<rparr>]),
                                                   (''coverImages'', [\<lparr>path = ''/tmp/c.png''\<rparr>])]\<rparr>)
     = Some ''/tmp/c.png'' \<and>
   (\<exists>resp w'. registerUser ext0 req_alice w0 = (Inr resp, w'))"
proof -
  let ?r1 = "req_alice\<lparr>files := None\<rparr>"
  let ?r2 = "req_alice\<lparr>files := Some [(''avatar'', [\<lparr>path = ''/tmp/a.png''\<rparr>]),
                                       (''coverImages'', [\<lparr>path = ''/tmp/c.png''\<rparr>])]\<rparr>"
  have 1: "someFieldBlank ?r1 = Inr False \<and> falsy (avatarLocalPath ?r1) \<and> existedUser ?r1 w0 = None"
    by (simp add: eval_defs req_alice_def w0_def)
  have 3: "coverImagesLocalPath req_alice = None \<and> body ?r2 = body req_alice \<and>
           avatarLocalPath ?r2 = avatarLocalPath req_alice \<and>
           registerUser ext0 ?r2 w0 =
             (Inr (201, new_ApiResponse 201 (JObject (select ''-password -refreshToken '' alice_doc))
                          (JString ''User created successfully'')),
              \<lparr>localFiles = {}, users = [alice_doc]\<rparr>)"
    by (simp add: eval_defs ext0_def req_alice_def w0_def alice_doc_def)
  have 4: "coverImagesLocalPath ?r2 = Some ''/tmp/c.png''"
    by (simp add: eval_defs req_alice_def)
  show ?thesis
    using missing_avatar_rejected [where req = ?r1 and w = w0 and ext = ext0 and blank = False,
            THEN conjunct1, rule_format, OF 1] 1
          missing_avatar_rejected [where req = req_alice and ?req2.0 = ?r2 and ext = ext0 and w = w0,
            THEN conjunct2, rule_format, OF 3] 3 4
    by simp
qed

text \<open>Without the proviso on the duplication check the statement fails: a request
  without an avatar whose four fields are valid and whose email is the one of a stored
  user gets status 409.\<close>

theorem missing_avatar_duplicate_counterexample:
  "avatarLocalPath (req_alice\<lparr>files := None\<rparr>) = None \<and>
   someFieldBlank (req_alice\<lparr>files := None\<rparr>) = Inr False \<and>
   registerUser ext0 (req_alice\<lparr>files := None\<rparr>) w_alice
     = (Inl (ApiError 409 ''User already exists''), w_alice)"
  by (simp add: eval_defs ext0_def req_alice_def w_alice_def alice_doc_def)

section \<open>Upload results\<close>

lemma map_of_storedUser_coverImage:
  "map_of (storedUser ext i un f p e av cv) ''coverImage'' = Some (JString cv)"
  by (simp add: storedUser_def)

lemma createAndRespond_completes:
  assumes "someFieldBlank req = Inr False" and "existedUser req wa = None" and "users w = users wa"
    and "fieldOf req ''username'' = Some (JString un)" "fieldOf req ''fullName'' = Some (JString f)"
        "fieldOf req ''password'' = Some (JString p)" "fieldOf req ''email'' = Some (JString e)"
    and "url a \<noteq> []"
  shows "createAndRespond ext req a c w =
     (Inr (201, new_ApiResponse 201
                  (JObject (select ''-password -refreshToken ''
                     (storedUser ext (freshId (users w)) un f p e (url a) (coverUrl c))))
                  (JString ''User created successfully'')),
      w\<lparr>users := users w @ [storedUser ext (freshId (users w)) un f p e (url a) (coverUrl c)]\<rparr>)"
proof -
  have nb: "trim un \<noteq> []" "trim f \<noteq> []" "p \<noteq> []" "trim e \<noteq> []"
    using not_blank_fields [OF assms(1)] assms(4-7) by (simp_all add: fieldNames_def)
  have dk: "duplicateKeys (storedUser ext (freshId (users w)) un f p e (url a) (coverUrl c)) (users w) = []"
    using existedUser_no_duplicateKeys [OF assms(2) assms(4) assms(7)] assms(3) by simp
  show ?thesis
    unfolding createAndRespond_Inr_iff
    using assms(4-8) nb dk by (simp add: toLowerCase_Nil)
qed

text \<open>
  C6, as amended. Take a request that reaches the uploads (the field check passed, no
  stored user found, an avatar path). If the avatar upload returns \<open>null\<close>, the handler
  throws the error with status 400 and message "Avatar upload failed" and the collection
  is unchanged. If the avatar upload succeeds with a non-empty \<open>url\<close>, the four fields
  are present (strings) and the cover-image upload returns \<open>null\<close>, registration
  completes: the handler answers 201 and the record it persists has the empty string as
  \<open>coverImage\<close>.
\<close>

theorem upload_results:
  assumes "someFieldBlank req = Inr False" and "existedUser req w = None"
    and "\<not> falsy (avatarLocalPath req)"
  shows
    "(fst (avatarUpload ext req w) = Inr None \<longrightarrow>
        fst (registerUser ext req w) = Inl (ApiError 400 ''Avatar upload failed'') \<and>
        users (snd (registerUser ext req w)) = users w) \<and>
     (fst (avatarUpload ext req w) = Inr (Some a) \<and> fst (coverImagesUpload ext req w) = Inr None \<and>
      url a \<noteq> [] \<and>
      fieldOf req ''username'' = Some (JString un) \<and> fieldOf req ''fullName'' = Some (JString f) \<and>
      fieldOf req ''password'' = Some (JString p) \<and> fieldOf req ''email'' = Some (JString e) \<longrightarrow>
        (\<exists>saved.
           registerUser ext req w =
             (Inr (201, new_ApiResponse 201 (JObject (select ''-password -refreshToken '' saved))
                          (JString ''User created successfully'')),
              w\<lparr>localFiles := snd (coverImagesUpload ext req w), users := users w @ [saved]\<rparr>) \<and>
           map_of saved ''coverImage'' = Some (JString [])))"
proof (intro conjI impI)
  obtain cv where cv: "fst (coverImagesUpload ext req w) = Inr cv"
    using coverImagesUpload_resolves by blast
  assume av: "fst (avatarUpload ext req w) = Inr None"
  from registerUser_after_checks [OF assms av cv]
  show "fst (registerUser ext req w) = Inl (ApiError 400 ''Avatar upload failed'')"
    and "users (snd (registerUser ext req w)) = users w"
    by simp_all
next
  assume h: "fst (avatarUpload ext req w) = Inr (Some a) \<and> fst (coverImagesUpload ext req w) = Inr None \<and>
      url a \<noteq> [] \<and>
      fieldOf req ''username'' = Some (JString un) \<and> fieldOf req ''fullName'' = Some (JString f) \<and>
      fieldOf req ''password'' = Some (JString p) \<and> fieldOf req ''email'' = Some (JString e)"
  then have av: "fst (avatarUpload ext req w) = Inr (Some a)"
    and cv: "fst (coverImagesUpload ext req w) = Inr None"
    and u: "url a \<noteq> []"
    and b: "fieldOf req ''username'' = Some (JString un)" "fieldOf req ''fullName'' = Some (JString f)"
        "fieldOf req ''password'' = Some (JString p)" "fieldOf req ''email'' = Some (JString e)"
    by blast+
  let ?w = "w\<lparr>localFiles := snd (coverImagesUpload ext req w)\<rparr>"
  let ?saved = "storedUser ext (freshId (users w)) un f p e (url a) []"
  have eq: "registerUser ext req w = createAndRespond ext req a None ?w"
    using registerUser_after_checks [OF assms av cv] by simp
  have "users ?w = users w" by simp
  from createAndRespond_completes [OF assms(1,2) this b u, of ext None]
  have "registerUser ext req w =
             (Inr (201, new_ApiResponse 201 (JObject (select ''-password -refreshToken '' ?saved))
                          (JString ''User created successfully'')),
              w\<lparr>localFiles := snd (coverImagesUpload ext req w), users := users w @ [?saved]\<rparr>)"
    unfolding eq by (simp add: coverUrl_def)
  moreover have "map_of ?saved ''coverImage'' = Some (JString [])"
    by (rule map_of_storedUser_coverImage)
  ultimately show "\<exists>saved.
           registerUser ext req w =
             (Inr (201, new_ApiResponse 201 (JObject (select ''-password -refreshToken '' saved))
                          (JString ''User created successfully'')),
              w\<lparr>localFiles := snd (coverImagesUpload ext req w), users := users w @ [saved]\<rparr>) \<and>
           map_of saved ''coverImage'' = Some (JString [])"
    by blast
qed

theorem upload_results_witness:
  "someFieldBlank req_alice = Inr False \<and> existedUser req_alice w0 = None \<and>
   \<not> falsy (avatarLocalPath req_alice) \<and>
   fst (avatarUpload ext0 (req_alice\<lparr>files := Some [(''avatar'', [\<lparr>path = ''/tmp/b.png''\<rparr>])]\<rparr>)
          (w0\<lparr>localFiles := {''/tmp/b.png''}\<rparr>)) = Inr None \<and>
   fst (registerUser ext0 (req_alice\<lparr>files := Some [(''avatar'', [\<lparr>path = ''/tmp/b.png''\<rparr>])]\<rparr>)
          (w0\<lparr>localFiles := {''/tmp/b.png''}\<rparr>)) = Inl (ApiError 400 ''Avatar upload failed'') \<and>
   users (snd (registerUser ext0 (req_alice\<lparr>files := Some [(''avatar'', [\<lparr>path = ''/tmp/b.png''\<rparr>])]\<rparr>)
          (w0\<lparr>localFiles := {''/tmp/b.png''}\<rparr>))) = [] \<and>
   fst (avatarUpload ext0 req_alice w0) = Inr (Some a0) \<and>
   fst (coverImagesUpload ext0 req_alice w0) = Inr None \<and> url a0 \<noteq> [] \<and>
   (\<exists>saved.
      registerUser ext0 req_alice w0 =
        (Inr (201, new_ApiResponse 201 (JObject (select ''-password -refreshToken '' saved))
                     (JString ''User created successfully'')),
         w0\<lparr>localFiles := snd (coverImagesUpload ext0 req_alice w0), users := users w0 @ [saved]\<rparr>) \<and>
      map_of saved ''coverImage'' = Some (JString []))"
proof -
  let ?rb = "req_alice\<lparr>files := Some [(''avatar'', [\<lparr>path = ''/tmp/b.png''\<rparr>])]\<rparr>"
  let ?wb = "w0\<lparr>localFiles := {''/tmp/b.png''}\<rparr>"
  have pa: "someFieldBlank req_alice = Inr False" "existedUser req_alice w0 = None"
    "\<not> falsy (avatarLocalPath req_alice)"
    by (simp_all add: eval_defs req_alice_def w0_def)
  have pb: "someFieldBlank ?rb = Inr False" "existedUser ?rb ?wb = None" "\<not> falsy (avatarLocalPath ?rb)"
    by (simp_all add: eval_defs req_alice_def w0_def)
  have ub: "fst (avatarUpload ext0 ?rb ?wb) = Inr None"
    by (simp add: eval_defs ext0_def req_alice_def w0_def)
  have ua: "fst (avatarUpload ext0 req_alice w0) = Inr (Some a0) \<and>
            fst (coverImagesUpload ext0 req_alice w0) = Inr None \<and> url a0 \<noteq> [] \<and>
            fieldOf req_alice ''username'' = Some (JString ''alice'') \<and>
            fieldOf req_alice ''fullName'' = Some (JString ''Alice A'') \<and>
            fieldOf req_alice ''password'' = Some (JString ''secret'') \<and>
            fieldOf req_alice ''email'' = Some (JString ''a@x.com'')"
    by (simp add: eval_defs ext0_def a0_def req_alice_def w0_def)
  from upload_results [OF pb, of ext0] ub
  have A: "fst (registerUser ext0 ?rb ?wb) = Inl (ApiError 400 ''Avatar upload failed'') \<and>
        users (snd (registerUser ext0 ?rb ?wb)) = users ?wb"
    by blast
  from upload_results [OF pa, of ext0 a0 "''alice''" "''Alice A''" "''secret''" "''a@x.com''",
         THEN conjunct2, rule_format, OF ua]
  have B: "\<exists>saved.
      registerUser ext0 req_alice w0 =
        (Inr (201, new_ApiResponse 201 (JObject (select ''-password -refreshToken '' saved))
                     (JString ''User created successfully'')),
         w0\<lparr>localFiles := snd (coverImagesUpload ext0 req_alice w0), users := users w0 @ [saved]\<rparr>) \<and>
      map_of saved ''coverImage'' = Some (JString [])" .
  from A have A': "fst (registerUser ext0 ?rb ?wb) = Inl (ApiError 400 ''Avatar upload failed'') \<and>
        users (snd (registerUser ext0 ?rb ?wb)) = []"
    by (simp add: w0_def)
  show ?thesis
    using pa ub ua A' B by blast
qed

text \<open>Without the provisos the second half fails: for a request without a full
  name the avatar upload succeeds, the cover-image upload returns \<open>null\<close>, and the
  required validator of the schema rejects the record, so registration does not
  complete and nothing is persisted.\<close>

theorem upload_results_counterexample:
  "fst (avatarUpload ext0 (req_alice\<lparr>body := Some [(''username'', JString ''alice''),
          (''email'', JString ''a@x.com''), (''password'', JString ''secret'')]\<rparr>) w0) = Inr (Some a0) \<and>
   fst (coverImagesUpload ext0 (req_alice\<lparr>body := Some [(''username'', JString ''alice''),
          (''email'', JString ''a@x.com''), (''password'', JString ''secret'')]\<rparr>) w0) = Inr None \<and>
   registerUser ext0 (req_alice\<lparr>body := Some [(''username'', JString ''alice''),
          (''email'', JString ''a@x.com''), (''password'', JString ''secret'')]\<rparr>) w0
     = (Inl (ValidationError ''fullName''), \<lparr>localFiles = {}, users = []\<rparr>)"
  by (simp add: eval_defs ext0_def a0_def req_alice_def w0_def)

section \<open>The response\<close>

lemma keys_select_spec:
  "keys (select ''-password -refreshToken '' d) = keys d - {''password'', ''refreshToken''}"
  by (auto simp: keys_def select_spec)

lemma keys_storedUser:
  "keys (storedUser ext i un f p e av cv) =
     {''_id'', ''username'', ''fullName'', ''password'', ''email'', ''avatar'', ''coverImage'',
      ''watchHistory'', ''createdAt'', ''updatedAt''}"
  by (simp add: keys_def storedUser_def)

lemma registerUser_success:
  assumes "registerUser ext req w = (Inr resp, w')"
  shows "\<exists>un f p e a c saved.
       fieldOf req ''username'' = Some (JString un) \<and> fieldOf req ''fullName'' = Some (JString f) \<and>
       fieldOf req ''password'' = Some (JString p) \<and> fieldOf req ''email'' = Some (JString e) \<and>
       fst (avatarUpload ext req w) = Inr (Some a) \<and> fst (coverImagesUpload ext req w) = Inr c \<and>
       saved = storedUser ext (freshId (users w)) un f p e (url a) (coverUrl c) \<and>
       duplicateKeys saved (users w) = [] \<and>
       w' = w\<lparr>localFiles := snd (coverImagesUpload ext req w), users := users w @ [saved]\<rparr> \<and>
       resp = (201, new_ApiResponse 201 (JObject (select ''-password -refreshToken '' saved))
                      (JString ''User created successfully''))"
proof -
  from assms obtain a c where
    up: "fst (avatarUpload ext req w) = Inr (Some a)" "fst (coverImagesUpload ext req w) = Inr c"
    and cr: "createAndRespond ext req a c (w\<lparr>localFiles := snd (coverImagesUpload ext req w)\<rparr>) = (Inr resp, w')"
    unfolding registerUser_Inr_iff by blast
  from cr [unfolded createAndRespond_Inr_iff] up show ?thesis
    by auto
qed

text \<open>
  C1. For every successful registration the status is 201 and the user object in the
  response body is the record just stored, fetched again by its identifier and projected
  with \<open>"-password -refreshToken "\<close>; the stored record has a \<open>password\<close> key, the
  returned object has neither a \<open>password\<close> nor a \<open>refreshTokens\<close> key.
\<close>

theorem response_user_sanitized:
  assumes "registerUser ext req w = (Inr (st, r), w')"
  shows "st = 201 \<and>
     (\<exists>saved. users w' = users w @ [saved] \<and>
        findById (idOf saved) (users w') = Some saved \<and>
        message r = JObject (select ''-password -refreshToken '' saved) \<and>
        ''password'' \<in> keys saved \<and>
        ''password'' \<notin> keys (select ''-password -refreshToken '' saved) \<and>
        ''refreshTokens'' \<notin> keys (select ''-password -refreshToken '' saved))"
  using registerUser_success [OF assms]
  by (auto simp: new_ApiResponse_def keys_select_spec keys_storedUser findById_storedUser idOf_storedUser)

theorem response_user_sanitized_witness:
  "registerUser ext0 req_alice w0 =
     (Inr (201, \<lparr>statusCode = 201,
                 message = JObject (select ''-password -refreshToken '' alice_doc),
                 data = JString ''User created successfully'',
                 success = True\<rparr>),
      \<lparr>localFiles = {}, users = [alice_doc]\<rparr>) \<and>
   ''password'' \<in> keys alice_doc \<and>
   ''password'' \<notin> keys (select ''-password -refreshToken '' alice_doc) \<and>
   ''refreshTokens'' \<notin> keys (select ''-password -refreshToken '' alice_doc)"
  using response_user_sanitized [OF registerUser_alice] registerUser_alice
  by (simp add: w0_def)

text \<open>The projection names \<open>refreshToken\<close>, the schema's path is \<open>refreshTokens\<close>: the
  returned object has no such key because registration never sets one, not because the
  projection removes it.\<close>

lemma select_keeps_refreshTokens:
  "(''refreshTokens'', v) \<in> set d \<Longrightarrow>
     (''refreshTokens'', v) \<in> set (select ''-password -refreshToken '' d)"
  by (simp add: select_spec)

text \<open>
  C2. The body sent with status 201 for the specification's example request: the
  envelope has \<open>statusCode\<close> 201 and \<open>success\<close> true, but the handler passes the user
  as the second argument of \<open>ApiResponse\<close> and the text as the third, so \<open>message\<close>
  holds the sanitized user and \<open>data\<close> holds the text "User created successfully".
\<close>

theorem registerUser_envelope_swapped:
  "fst (registerUser ext0 req_alice w0) =
     Inr (201,
          \<lparr>statusCode = 201,
            message = JObject [(''_id'', JNumber 1), (''username'', JString ''alice''),
                               (''fullName'', JString ''Alice A''), (''email'', JString ''a@x.com''),
                               (''avatar'', JString ''http://c/a.png''),
                               (''coverImage'', JString []), (''watchHistory'', JArray []),
                               (''createdAt'', JNumber 0), (''updatedAt'', JNumber 0)],
            data = JString ''User created successfully'',
            success = True\<rparr>)"
  by (simp add: registerUser_alice select_spec alice_doc_def)

text \<open>The same holds for every successful registration.\<close>

lemma registerUser_envelope:
  assumes "registerUser ext req w = (Inr (st, r), w')"
  shows "st = 201 \<and> statusCode r = 201 \<and> success r \<and>
         data r = JString ''User created successfully'' \<and> (\<exists>u. message r = JObject u)"
  using registerUser_success [OF assms] by (auto simp: new_ApiResponse_def)

section \<open>The persisted record\<close>

lemma userObject_Some:
  "fieldOf req ''username'' = Some (JString un) \<Longrightarrow>
   userObject req a c =
     Inr [(''fullName'', strOf (fieldOf req ''fullName'')), (''email'', strOf (fieldOf req ''email'')),
          (''username'', Some (toLowerCase un)), (''password'', strOf (fieldOf req ''password'')),
          (''avatar'', Some (url a)), (''coverImage'', Some (coverUrl c))]"
  by (simp add: userObject_def coverUrl_def strOf_JString split: option.splits)

lemma storedUser_toLowerCase:
  "storedUser ext i (toLowerCase un) f p e av cv = storedUser ext i un f p e av cv"
  by (simp add: storedUser_def trim_toLowerCase toLowerCase_idem)

text \<open>
  C9, as amended. For every successful registration, the object handed to
  \<open>User.create\<close> holds the lowercased username, the full name and the email as the
  request gave them (untrimmed), the raw password, the \<open>url\<close> of the avatar upload and
  the \<open>url\<close> of the cover-image upload or the empty string. The record the repository
  persists for it holds the username trimmed and lowercased, the full name trimmed, the
  email trimmed and lowercased (the setters of the schema), the password replaced by its
  hash (the \<open>pre('save')\<close> hook), and the same two URLs.
\<close>

theorem registration_record:
  assumes "registerUser ext req w = (Inr resp, w')"
  shows "\<exists>un f p e a c saved.
     fieldOf req ''username'' = Some (JString un) \<and> fieldOf req ''fullName'' = Some (JString f) \<and>
     fieldOf req ''password'' = Some (JString p) \<and> fieldOf req ''email'' = Some (JString e) \<and>
     fst (avatarUpload ext req w) = Inr (Some a) \<and> fst (coverImagesUpload ext req w) = Inr c \<and>
     userObject req a c =
       Inr [(''fullName'', Some f), (''email'', Some e), (''username'', Some (toLowerCase un)),
            (''password'', Some p), (''avatar'', Some (url a)), (''coverImage'', Some (coverUrl c))] \<and>
     User_create ext [(''fullName'', Some f), (''email'', Some e), (''username'', Some (toLowerCase un)),
            (''password'', Some p), (''avatar'', Some (url a)), (''coverImage'', Some (coverUrl c))]
         (users w) = Inr (saved, users w') \<and>
     users w' = users w @ [saved] \<and>
     map_of saved ''username'' = Some (JString (toLowerCase (trim un))) \<and>
     map_of saved ''fullName'' = Some (JString (trim f)) \<and>
     map_of saved ''email'' = Some (JString (toLowerCase (trim e))) \<and>
     map_of saved ''password'' = Some (JString (bcrypt_hash ext p 10)) \<and>
     map_of saved ''avatar'' = Some (JString (url a)) \<and>
     map_of saved ''coverImage'' = Some (JString (coverUrl c))"
proof -
  from registerUser_success [OF assms] obtain un f p e a c saved where
    b: "fieldOf req ''username'' = Some (JString un)" "fieldOf req ''fullName'' = Some (JString f)"
       "fieldOf req ''password'' = Some (JString p)" "fieldOf req ''email'' = Some (JString e)"
    and up: "fst (avatarUpload ext req w) = Inr (Some a)" "fst (coverImagesUpload ext req w) = Inr c"
    and sv: "saved = storedUser ext (freshId (users w)) un f p e (url a) (coverUrl c)"
    and dk: "duplicateKeys saved (users w) = []"
    and w': "w' = w\<lparr>localFiles := snd (coverImagesUpload ext req w), users := users w @ [saved]\<rparr>"
    by blast
  from assms up have cr: "createAndRespond ext req a c (w\<lparr>localFiles := snd (coverImagesUpload ext req w)\<rparr>)
      = (Inr resp, w')"
    unfolding registerUser_Inr_iff by auto
  have obj: "userObject req a c =
       Inr [(''fullName'', Some f), (''email'', Some e), (''username'', Some (toLowerCase un)),
            (''password'', Some p), (''avatar'', Some (url a)), (''coverImage'', Some (coverUrl c))]"
    using userObject_Some [OF b(1), of a c] b by (simp add: strOf_JString)
  have uc: "User_create ext [(''fullName'', Some f), (''email'', Some e), (''username'', Some (toLowerCase un)),
            (''password'', Some p), (''avatar'', Some (url a)), (''coverImage'', Some (coverUrl c))]
         (users w) = Inr (saved, users w')"
    using cr obj w' sv
    by (auto simp: createAndRespond_def split: sum.splits option.splits
             simp: User_create_iff storedUser_toLowerCase)
  have fields: "map_of saved ''username'' = Some (JString (toLowerCase (trim un)))"
    "map_of saved ''fullName'' = Some (JString (trim f))"
    "map_of saved ''email'' = Some (JString (toLowerCase (trim e)))"
    "map_of saved ''password'' = Some (JString (bcrypt_hash ext p 10))"
    "map_of saved ''avatar'' = Some (JString (url a))"
    "map_of saved ''coverImage'' = Some (JString (coverUrl c))"
    by (simp_all add: sv storedUser_def)
  from w' have "users w' = users w @ [saved]" by simp
  with b up obj uc fields show ?thesis by blast
qed

theorem registration_record_witness:
  "registerUser ext0 req_padded w0 =
     (Inr (201, new_ApiResponse 201 (JObject (select ''-password -refreshToken '' alice_doc))
                  (JString ''User created successfully'')),
      \<lparr>localFiles = {}, users = [alice_doc]\<rparr>) \<and>
   (\<exists>saved. users \<lparr>localFiles = {}, users = [alice_doc]\<rparr> = users w0 @ [saved] \<and>
      map_of saved ''username'' = Some (JString (toLowerCase (trim ''Alice''))) \<and>
      map_of saved ''fullName'' = Some (JString (trim '' Alice A'')) \<and>
      map_of saved ''email'' = Some (JString (toLowerCase (trim '' A@x.com''))) \<and>
      map_of saved ''password'' = Some (JString (bcrypt_hash ext0 ''secret'' 10)))"
proof -
  note r = registerUser_padded
  have b: "fieldOf req_padded ''username'' = Some (JString ''Alice'')"
    "fieldOf req_padded ''fullName'' = Some (JString '' Alice A'')"
    "fieldOf req_padded ''password'' = Some (JString ''secret'')"
    "fieldOf req_padded ''email'' = Some (JString '' A@x.com'')"
    by (simp_all add: req_padded_def fieldOf_def)
  from registration_record [OF r] b show ?thesis
    using r by auto
qed

text \<open>As stated the claim fails whichever record is meant: for the request with
  email \<open>" A@x.com"\<close> the object handed to the repository holds the email untrimmed
  (and the full name untrimmed), and the persisted record holds it trimmed and
  lowercased, with the hash in place of the raw password.\<close>

theorem registration_record_counterexample:
  "userObject req_padded a0 None = Inr padded_object \<and>
   users (snd (registerUser ext0 req_padded w0)) = [alice_doc] \<and>
   fieldOf req_padded ''email'' = Some (JString '' A@x.com'') \<and>
   fieldOf req_padded ''fullName'' = Some (JString '' Alice A'') \<and>
   fieldOf req_padded ''password'' = Some (JString ''secret'') \<and>
   getProp padded_object ''email'' \<noteq> Some (trim '' A@x.com'') \<and>
   getProp padded_object ''fullName'' \<noteq> Some (trim '' Alice A'') \<and>
   map_of alice_doc ''email'' \<noteq> Some (JString (trim '' A@x.com'')) \<and>
   map_of alice_doc ''password'' \<noteq> Some (JString ''secret'')"
proof -
  have r: "users (snd (registerUser ext0 req_padded w0)) = [alice_doc]"
    by (simp add: registerUser_padded)
  have o: "userObject req_padded a0 None = Inr padded_object"
    by (simp add: userObject_def req_padded_def a0_def padded_object_def toLowerCase_def
          lowerChar_def char_of_97 fieldOf_def strOf_def)
  show ?thesis
    using r o
    by (simp add: req_padded_def padded_object_def alice_doc_def getProp_def trim_def isWhiteSpace_def
          fieldOf_def)
qed

section \<open>Password hashing\<close>

lemma pre_save_string:
  "map_of this ''password'' = Some (JString q) \<Longrightarrow>
     pre_save ext modified this =
       Inr (if ''password'' \<in> set modified
            then AList.update ''password'' (JString (bcrypt_hash ext q 10)) this else this)"
  by (simp add: pre_save_def)

lemma isPasswordCorrect_storedUser:
  "isPasswordCorrect ext (storedUser ext i un f p e av cv) candidate
     = Inr (bcrypt_compare ext candidate (bcrypt_hash ext p 10))"
  by (simp add: isPasswordCorrect_def storedUser_def)

text \<open>
  C8. \<open>bcrypt\<close> is a library outside the repository: its \<open>hash\<close> and \<open>compare\<close> are
  parameters, and what the library promises of them (a hash differs from its plaintext,
  and \<open>compare\<close> accepts a plaintext against its own hash) are the two hypotheses.
  The \<open>pre('save')\<close> hook replaces a password by \<open>hash(password, 10)\<close> if and only if
  the password path is modified, and leaves the document untouched otherwise. Hence,
  for every successful registration, the stored password is the hash with cost factor
  10 of the plaintext the request supplied, it is not that plaintext, and
  \<open>isPasswordCorrect(plaintext)\<close> on the stored record returns true.
\<close>

theorem password_hashing:
  assumes "\<forall>p. bcrypt_hash ext p 10 \<noteq> p"
    and "\<forall>p. bcrypt_compare ext p (bcrypt_hash ext p 10)"
  shows
    "(map_of this ''password'' = Some (JString q) \<longrightarrow>
        pre_save ext modified this =
          Inr (if ''password'' \<in> set modified
               then AList.update ''password'' (JString (bcrypt_hash ext q 10)) this else this)) \<and>
     (registerUser ext req w = (Inr resp, w') \<longrightarrow>
        (\<exists>p saved. fieldOf req ''password'' = Some (JString p) \<and> users w' = users w @ [saved] \<and>
            map_of saved ''password'' = Some (JString (bcrypt_hash ext p 10)) \<and>
            map_of saved ''password'' \<noteq> Some (JString p) \<and>
            isPasswordCorrect ext saved p = Inr True))"
proof (intro conjI impI)
  assume "map_of this ''password'' = Some (JString q)"
  then show "pre_save ext modified this =
          Inr (if ''password'' \<in> set modified
               then AList.update ''password'' (JString (bcrypt_hash ext q 10)) this else this)"
    by (rule pre_save_string)
next
  assume ok: "registerUser ext req w = (Inr resp, w')"
  from registerUser_success [OF ok] obtain un f p e a c saved where
    p: "fieldOf req ''password'' = Some (JString p)"
    and sv: "saved = storedUser ext (freshId (users w)) un f p e (url (a::cloud_response)) (coverUrl c)"
    and w': "w' = w\<lparr>localFiles := snd (coverImagesUpload ext req w), users := users w @ [saved]\<rparr>"
    by blast
  have 1: "map_of saved ''password'' = Some (JString (bcrypt_hash ext p 10))"
    by (simp add: sv storedUser_def)
  have 2: "map_of saved ''password'' \<noteq> Some (JString p)"
    using assms(1) by (simp add: 1)
  have 3: "isPasswordCorrect ext saved p = Inr True"
    using assms(2) by (simp add: sv isPasswordCorrect_storedUser)
  from w' have "users w' = users w @ [saved]" by simp
  with p 1 2 3
  show "\<exists>p saved. fieldOf req ''password'' = Some (JString p) \<and> users w' = users w @ [saved] \<and>
            map_of saved ''password'' = Some (JString (bcrypt_hash ext p 10)) \<and>
            map_of saved ''password'' \<noteq> Some (JString p) \<and>
            isPasswordCorrect ext saved p = Inr True"
    by blast
qed

lemma ext0_bcrypt:
  "\<forall>p. bcrypt_hash ext0 p 10 \<noteq> p" "\<forall>p. bcrypt_compare ext0 p (bcrypt_hash ext0 p 10)"
proof -
  have "''$2b$'' @ p \<noteq> p" for p :: string
  proof
    assume "''$2b$'' @ p = p"
    then have "length (''$2b$'' @ p) = length p" by simp
    then show False by simp
  qed
  then show "\<forall>p. bcrypt_hash ext0 p 10 \<noteq> p" by (simp add: ext0_def)
  show "\<forall>p. bcrypt_compare ext0 p (bcrypt_hash ext0 p 10)" by (simp add: ext0_def)
qed

theorem password_hashing_witness:
  "pre_save ext0 [''password''] [(''password'', JString ''secret'')]
     = Inr [(''password'', JString ''$2b$secret'')] \<and>
   pre_save ext0 [''email''] alice_doc = Inr alice_doc \<and>
   registerUser ext0 req_alice w0 =
     (Inr (201, \<lparr>statusCode = 201,
                 message = JObject (select ''-password -refreshToken '' alice_doc),
                 data = JString ''User created successfully'',
                 success = True\<rparr>),
      \<lparr>localFiles = {}, users = [alice_doc]\<rparr>) \<and>
   fieldOf req_alice ''password'' = Some (JString ''secret'') \<and>
   map_of alice_doc ''password'' = Some (JString ''$2b$secret'') \<and>
   isPasswordCorrect ext0 alice_doc ''secret'' = Inr True"
proof -
  have a: "map_of [(''password'', JString ''secret'')] ''password'' = Some (JString ''secret'')"
    by simp
  have b: "map_of alice_doc ''password'' = Some (JString ''$2b$secret'')"
    by (simp add: alice_doc_def)
  have c: "fieldOf req_alice ''password'' = Some (JString ''secret'')"
    by (simp add: req_alice_def fieldOf_def)
  note ph = password_hashing [OF ext0_bcrypt]
  from ph [where this = "[(''password'', JString ''secret'')]" and q = "''secret''"
             and modified = "[''password'']", THEN conjunct1, rule_format, OF a]
  have 1: "pre_save ext0 [''password''] [(''password'', JString ''secret'')]
     = Inr [(''password'', JString ''$2b$secret'')]"
    by (simp add: ext0_def)
  from ph [where this = alice_doc and q = "''$2b$secret''" and modified = "[''email'']",
           THEN conjunct1, rule_format, OF b]
  have 2: "pre_save ext0 [''email''] alice_doc = Inr alice_doc"
    by simp
  from ph [where req = req_alice and w = w0, THEN conjunct2, rule_format, OF registerUser_alice]
  obtain p saved where p: "fieldOf req_alice ''password'' = Some (JString p)"
    and u: "users \<lparr>localFiles = {}, users = [alice_doc]\<rparr> = users w0 @ [saved]"
    and ok: "isPasswordCorrect ext0 saved p = Inr True"
    by blast
  from p c have "p = ''secret''" by simp
  moreover from u have "saved = alice_doc" by (simp add: w0_def)
  ultimately have 3: "isPasswordCorrect ext0 alice_doc ''secret'' = Inr True"
    using ok by simp
  show ?thesis
    using 1 2 3 b c registerUser_alice by simp
qed

end
